theory Spec2Isabelle
  imports Complex_Main "HOL-Library.Log_Nat" "HOL-Library.Signed_Division"
    "HOL-Library.Monad_Syntax"
begin

section \<open>The Linux system utilities of Colobot (\<open>src/common/system/system_linux.cpp\<close>)\<close>

text \<open>
  The class \<open>CSystemUtilsLinux\<close> talks to the operating system through four library
  calls: \<open>system\<close> (run a shell command, return its status), \<open>getenv\<close>,
  \<open>clock_gettime\<close> and \<open>usleep\<close>, and it writes lines to the logger. In the
  embedding the first two are parameters of the operations that use them:
  \<^item> \<open>sys :: string \<Rightarrow> int\<close> gives the value \<open>system\<close> returns for a command line;
  \<^item> \<open>env :: string \<Rightarrow> string option\<close> is the environment (\<open>None\<close>: \<open>getenv\<close>
    returns the null pointer).
  Every operation that uses them returns an \<open>outcome\<close>: the value the C++ function
  returns, the command lines it handed to \<open>system\<close>, in order, and the lines it
  logged, in order. A \<open>std::string\<close> is a \<open>string\<close>; the strings handed to the C
  library through \<open>c_str()\<close> are taken to hold no NUL character.

  \<open>GetCurrentTimeStamp\<close> only forwards to \<open>clock_gettime(CLOCK_MONOTONIC_RAW, _)\<close> and
  \<open>Usleep\<close> to \<open>usleep\<close>: what they do is the operating system's behaviour in
  real time, and they have no definition here.
\<close>

subsection \<open>Logger and outcomes\<close>

datatype log_level = Trace | Warn | Error

datatype log_arg = Str string | Num int

text \<open>A log line: level, \<open>printf\<close> format string, arguments.\<close>

datatype log_line = Log log_level string "log_arg list"

record 'a outcome =
  ret :: 'a
  commands :: "string list"
  logged :: "log_line list"

subsection \<open>Dialogs\<close>

text \<open>The two enumerations of \<open>common/system/system.h\<close>, by the enumerators the source uses.\<close>

datatype SystemDialogType = SDT_INFO | SDT_WARNING | SDT_ERROR | SDT_YES_NO | SDT_OK_CANCEL

datatype SystemDialogResult = SDR_OK | SDR_CANCEL | SDR_YES | SDR_NO

text \<open>\<open>Init\<close> probes for zenity; the value returned is the new \<open>m_zenityAvailable\<close>.\<close>

definition Init :: "(string \<Rightarrow> int) \<Rightarrow> bool outcome" where
  "Init sys =
     (let probe = ''zenity --version 1> /dev/null 2> /dev/null'' in
      if sys probe \<noteq> 0
      then \<lparr>ret = False, commands = [probe],
            logged = [Log Warn ''Zenity not available, will fallback to console users dialogs.\<newline>'' []]\<rparr>
      else \<lparr>ret = True, commands = [probe], logged = []\<rparr>)"

text \<open>The first \<open>switch\<close> of \<open>SystemDialog\<close> (lines 46 to 65): the options for zenity.\<close>

fun zenity_options :: "SystemDialogType \<Rightarrow> string" where
  "zenity_options SDT_INFO = ''--info''"
| "zenity_options SDT_WARNING = ''--warning''"
| "zenity_options SDT_ERROR = ''--error''"
| "zenity_options SDT_YES_NO = ''--question --ok-label=\"Yes\" --cancel-label=\"No\"''"
| "zenity_options SDT_OK_CANCEL = ''--question --ok-label=\"OK\" --cancel-label=\"Cancel\"''"

text \<open>Line 67: the command line.\<close>

definition zenity_command :: "SystemDialogType \<Rightarrow> string \<Rightarrow> string \<Rightarrow> string" where
  "zenity_command type title message =
     ''zenity '' @ zenity_options type @ '' --text=\"'' @ message @ ''\" --title=\"'' @ title @ ''\"''"

text \<open>The second \<open>switch\<close> (lines 70 to 81): from the status to the result.\<close>

fun dialog_result :: "SystemDialogType \<Rightarrow> int \<Rightarrow> SystemDialogResult" where
  "dialog_result SDT_YES_NO code = (if code \<noteq> 0 then SDR_NO else SDR_YES)"
| "dialog_result SDT_OK_CANCEL code = (if code \<noteq> 0 then SDR_CANCEL else SDR_OK)"
| "dialog_result _ code = SDR_OK"

text \<open>
  \<open>ConsoleSystemDialog\<close> belongs to the base class \<open>CSystemUtils\<close>, which is not part
  of this file: it is the parameter \<open>console\<close>. \<open>zenityAvailable\<close> is the field
  \<open>m_zenityAvailable\<close>.
\<close>

definition SystemDialog ::
  "(string \<Rightarrow> int) \<Rightarrow> (SystemDialogType \<Rightarrow> string \<Rightarrow> string \<Rightarrow> SystemDialogResult) \<Rightarrow> bool \<Rightarrow>
   SystemDialogType \<Rightarrow> string \<Rightarrow> string \<Rightarrow> SystemDialogResult outcome" where
  "SystemDialog sys console zenityAvailable type title message =
     (if \<not> zenityAvailable
      then \<lparr>ret = console type title message, commands = [], logged = []\<rparr>
      else
        let command = zenity_command type title message;
            code = sys command
        in \<lparr>ret = dialog_result type code, commands = [command], logged = []\<rparr>)"

subsection \<open>Environment and save directory\<close>

definition GetEnvVar :: "(string \<Rightarrow> string option) \<Rightarrow> string \<Rightarrow> string outcome" where
  "GetEnvVar env name =
     (case env name of
        Some envVar \<Rightarrow>
          \<lparr>ret = envVar, commands = [],
           logged = [Log Trace ''Detected environment variable %s = %s\<newline>'' [Str name, Str envVar]]\<rparr>
      | None \<Rightarrow> \<lparr>ret = [], commands = [], logged = []\<rparr>)"

text \<open>
  \<open>GetSaveDir\<close> is compiled in one of two ways. \<open>portable\<close> is the value of the
  preprocessor condition \<open>PORTABLE_SAVES || DEV_BUILD\<close>; \<open>base_dir\<close> is what
  \<open>CSystemUtils::GetSaveDir()\<close> of the base class returns (not part of this file).
\<close>

definition GetSaveDir :: "bool \<Rightarrow> string \<Rightarrow> (string \<Rightarrow> string option) \<Rightarrow> string outcome" where
  "GetSaveDir portable base_dir env =
     (if portable then \<lparr>ret = base_dir, commands = [], logged = []\<rparr>
      else
        let envXDG_DATA_HOME = GetEnvVar env ''XDG_DATA_HOME'' in
        if ret envXDG_DATA_HOME = []
        then
          let envHOME = GetEnvVar env ''HOME'' in
          if ret envHOME = []
          then
            \<lparr>ret = base_dir, commands = [],
             logged = logged envXDG_DATA_HOME @ logged envHOME @
               [Log Warn ''Unable to find directory for saves - using default directory'' [],
                Log Trace ''Saved game files are going to %s\<newline>'' [Str base_dir]]\<rparr>
          else
            let savegameDir = ret envHOME @ ''/.local/share/colobot'' in
            \<lparr>ret = savegameDir, commands = [],
             logged = logged envXDG_DATA_HOME @ logged envHOME @
               [Log Trace ''Saved game files are going to %s\<newline>'' [Str savegameDir]]\<rparr>
        else
          let savegameDir = ret envXDG_DATA_HOME @ ''/colobot'' in
          \<lparr>ret = savegameDir, commands = [],
           logged = logged envXDG_DATA_HOME @
             [Log Trace ''Saved game files are going to %s\<newline>'' [Str savegameDir]]\<rparr>)"

subsection \<open>Opening paths and websites\<close>

definition OpenPath :: "(string \<Rightarrow> int) \<Rightarrow> string \<Rightarrow> bool outcome" where
  "OpenPath sys path =
     (let command = ''xdg-open \"'' @ path @ ''\"'';
          result = sys command
      in if result \<noteq> 0
         then \<lparr>ret = False, commands = [command],
               logged = [Log Error ''Failed to open path: %s, error code: %i\<newline>'' [Str path, Num result]]\<rparr>
         else \<lparr>ret = True, commands = [command], logged = []\<rparr>)"

definition OpenWebsite :: "(string \<Rightarrow> int) \<Rightarrow> string \<Rightarrow> bool outcome" where
  "OpenWebsite sys url =
     (let command = ''xdg-open \"'' @ url @ ''\"'';
          result = sys command
      in if result \<noteq> 0
         then \<lparr>ret = False, commands = [command],
               logged = [Log Error ''Failed to open website: %s, error code: %i\<newline>'' [Str url, Num result]]\<rparr>
         else \<lparr>ret = True, commands = [command], logged = []\<rparr>)"

text \<open>
  The command line both functions build, in the words of the specification:
  \<open>xdg-open\<close> with the argument between double quotes.
\<close>

definition xdg_open_command :: "string \<Rightarrow> string" where
  "xdg_open_command s = ''xdg-open \"'' @ s @ ''\"''"

text \<open>A log line without its format text.\<close>

fun level_and_args :: "log_line \<Rightarrow> log_level \<times> log_arg list" where
  "level_and_args (Log level format args) = (level, args)"

section \<open>Time stamps\<close>

text \<open>
  \<open>SystemTimeStamp\<close> (declared in \<open>system_linux.h\<close>) holds one \<open>timespec\<close>, the
  field \<open>clockTime\<close>. The model is the LP64 Linux target: \<open>time_t\<close>, \<open>long\<close> and
  \<open>long long\<close> are signed 64-bit integers. Overflow of a signed integer and the
  conversion of a floating-point value that does not fit the integer type are undefined
  behaviour in C++: the model then has no result (\<open>None\<close>).
\<close>

record timespec =
  tv_sec :: int
  tv_nsec :: int

record SystemTimeStamp =
  clockTime :: timespec

definition LLONG_MIN :: int where
  "LLONG_MIN = - (2 ^ 63)"

definition LLONG_MAX :: int where
  "LLONG_MAX = 2 ^ 63 - 1"

definition in_llong :: "int \<Rightarrow> bool" where
  "in_llong x \<longleftrightarrow> LLONG_MIN \<le> x \<and> x \<le> LLONG_MAX"

text \<open>The result of one signed 64-bit operation whose mathematical value is \<open>x\<close>.\<close>

definition checked :: "int \<Rightarrow> int option" where
  "checked x = (if in_llong x then Some x else None)"

text \<open>
  \<open>TimeStampExactDiff\<close> (lines 104 to 108): two subtractions, the product with
  \<open>1000000000ll\<close>, the sum.
\<close>

definition TimeStampExactDiff :: "SystemTimeStamp \<Rightarrow> SystemTimeStamp \<Rightarrow> int option" where
  "TimeStampExactDiff stamp_before stamp_after =
     do {
       nsec_diff \<leftarrow> checked (tv_nsec (clockTime stamp_after) - tv_nsec (clockTime stamp_before));
       sec_diff \<leftarrow> checked (tv_sec (clockTime stamp_after) - tv_sec (clockTime stamp_before));
       scaled \<leftarrow> checked (sec_diff * 1000000000);
       checked (nsec_diff + scaled)
     }"

subsection \<open>Single-precision arithmetic\<close>

text \<open>
  The statement \<open>delta *= i\<close> of \<open>InterpolateTimeStamp\<close> multiplies a \<open>long long\<close>
  by a \<open>float\<close>. By the usual arithmetic conversions \<open>delta\<close> is first converted to
  \<open>float\<close>, the product is a \<open>float\<close>, and the product is converted back to
  \<open>long long\<close>, which truncates. The model is IEEE 754 binary32 with rounding to nearest,
  ties to even, evaluated in \<open>float\<close> itself (as with SSE on x86-64 and on AArch64): 24
  bits of precision, least exponent \<open>-149\<close> for the last bit, overflow at \<open>2 ^ 128\<close>.

  A finite \<open>float\<close> is given by its value, a rational number. The sign of a zero is not
  kept: it changes neither a product's magnitude nor the integer a value converts to.
\<close>

datatype cfloat = Finite rat | PInf | NInf | NaN

text \<open>\<open>ilog2 x\<close> is the integer \<open>k\<close> with \<open>2 ^ k \<le> x < 2 ^ (k + 1)\<close>, for \<open>0 < x\<close>.\<close>

definition ilog2 :: "rat \<Rightarrow> int" where
  "ilog2 x = (if 1 \<le> x then bitlen \<lfloor>x\<rfloor> - 1 else - bitlen (\<lceil>1 / x\<rceil> - 1))"

text \<open>Rounding to the nearest integer, a tie to the even one.\<close>

definition rne :: "rat \<Rightarrow> int" where
  "rne x =
     (let n = \<lfloor>x\<rfloor>; d = x - of_int n in
      if d < 1 / 2 then n
      else if 1 / 2 < d then n + 1
      else if even n then n else n + 1)"

text \<open>
  Rounding a rational to \<open>float\<close>: the last bit kept has the weight \<open>2 powi e\<close>, where
  \<open>e\<close> is 23 below the exponent of \<open>x\<close> and at least \<open>-149\<close>.
\<close>

definition round32 :: "rat \<Rightarrow> cfloat" where
  "round32 x =
     (if x = 0 then Finite 0
      else
        let e = max (ilog2 \<bar>x\<bar> - 23) (- 149);
            r = of_int (rne (x / 2 powi e)) * 2 powi e
        in if 2 ^ 128 \<le> \<bar>r\<bar> then (if 0 < x then PInf else NInf) else Finite r)"

text \<open>The conversion from \<open>long long\<close> to \<open>float\<close>.\<close>

definition ll_to_float :: "int \<Rightarrow> cfloat" where
  "ll_to_float n = round32 (of_int n)"

text \<open>The product of two \<open>float\<close> values.\<close>

fun fmul :: "cfloat \<Rightarrow> cfloat \<Rightarrow> cfloat" where
  "fmul NaN _ = NaN"
| "fmul _ NaN = NaN"
| "fmul (Finite p) (Finite q) = round32 (p * q)"
| "fmul (Finite p) PInf = (if p = 0 then NaN else if 0 < p then PInf else NInf)"
| "fmul (Finite p) NInf = (if p = 0 then NaN else if 0 < p then NInf else PInf)"
| "fmul PInf (Finite q) = (if q = 0 then NaN else if 0 < q then PInf else NInf)"
| "fmul NInf (Finite q) = (if q = 0 then NaN else if 0 < q then NInf else PInf)"
| "fmul PInf PInf = PInf"
| "fmul PInf NInf = NInf"
| "fmul NInf PInf = NInf"
| "fmul NInf NInf = PInf"

text \<open>Truncation toward zero, and the conversion from \<open>float\<close> to \<open>long long\<close>.\<close>

definition truncate :: "rat \<Rightarrow> int" where
  "truncate x = (if 0 \<le> x then \<lfloor>x\<rfloor> else \<lceil>x\<rceil>)"

fun float_to_ll :: "cfloat \<Rightarrow> int option" where
  "float_to_ll (Finite x) = checked (truncate x)"
| "float_to_ll _ = None"

subsection \<open>Interpolation\<close>

text \<open>
  \<open>InterpolateTimeStamp\<close> (lines 86 to 97) writes through the pointer \<open>dst\<close>; the model
  returns the time stamp written. \<open>delta\<close> is computed before the first write and each
  field of \<open>a\<close> is read before the same field of \<open>dst\<close> is written, so the result is the
  same when \<open>dst\<close> points to \<open>a\<close> or to \<open>b\<close>. The division and the remainder of C++
  truncate toward zero: \<open>sdiv\<close> and \<open>smod\<close>.
\<close>

definition InterpolateTimeStamp ::
  "SystemTimeStamp \<Rightarrow> SystemTimeStamp \<Rightarrow> cfloat \<Rightarrow> SystemTimeStamp option" where
  "InterpolateTimeStamp a b i =
     do {
       delta \<leftarrow> TimeStampExactDiff a b;
       delta \<leftarrow> float_to_ll (fmul (ll_to_float delta) i);
       sec \<leftarrow> checked (tv_sec (clockTime a) + delta sdiv 1000000000);
       nsec \<leftarrow> checked (tv_nsec (clockTime a) + delta smod 1000000000);
       if 1000000000 \<le> nsec
       then do {
         nsec' \<leftarrow> checked (nsec - 1000000000);
         sec' \<leftarrow> checked (sec + 1);
         Some \<lparr>clockTime = \<lparr>tv_sec = sec', tv_nsec = nsec'\<rparr>\<rparr>
       }
       else Some \<lparr>clockTime = \<lparr>tv_sec = sec, tv_nsec = nsec\<rparr>\<rparr>
     }"

subsection \<open>The notions of the specification\<close>

text \<open>A time stamp is normalized when its nanoseconds field lies in \<open>[0, 10^9)\<close>.\<close>

definition normalized :: "SystemTimeStamp \<Rightarrow> bool" where
  "normalized t \<longleftrightarrow> 0 \<le> tv_nsec (clockTime t) \<and> tv_nsec (clockTime t) < 1000000000"

text \<open>The time a time stamp represents, in nanoseconds.\<close>

definition nanoseconds :: "SystemTimeStamp \<Rightarrow> int" where
  "nanoseconds t = tv_sec (clockTime t) * 1000000000 + tv_nsec (clockTime t)"

text \<open>
  The difference as the specification writes it:
  \<open>(b.seconds - a.seconds) * 10^9 + (b.nanoseconds - a.nanoseconds)\<close>, an unbounded integer.
\<close>

definition exact_difference :: "SystemTimeStamp \<Rightarrow> SystemTimeStamp \<Rightarrow> int" where
  "exact_difference a b =
     (tv_sec (clockTime b) - tv_sec (clockTime a)) * 1000000000 +
     (tv_nsec (clockTime b) - tv_nsec (clockTime a))"

subsection \<open>Fixtures for the examples\<close>

text \<open>A shell that answers every command with the same status.\<close>

definition stub_system :: "int \<Rightarrow> string \<Rightarrow> int" where
  "stub_system code command = code"

definition stub_console :: "SystemDialogType \<Rightarrow> string \<Rightarrow> string \<Rightarrow> SystemDialogResult" where
  "stub_console type title message = SDR_CANCEL"

text \<open>An environment with the two variables \<open>GetSaveDir\<close> reads, and nothing else.\<close>

definition example_env :: "string \<Rightarrow> string option" where
  "example_env name =
     (if name = ''XDG_DATA_HOME'' then Some ''/data''
      else if name = ''HOME'' then Some ''/home/player''
      else None)"

text \<open>An environment where only \<open>HOME\<close> is set, and one with no variable at all.\<close>

definition home_env :: "string \<Rightarrow> string option" where
  "home_env name = (if name = ''HOME'' then Some ''/home/player'' else None)"

definition empty_env :: "string \<Rightarrow> string option" where
  "empty_env name = None"

definition stamp :: "int \<Rightarrow> int \<Rightarrow> SystemTimeStamp" where
  "stamp s n = \<lparr>clockTime = \<lparr>tv_sec = s, tv_nsec = n\<rparr>\<rparr>"

section \<open>Dialogs, environment and launcher: what the operations return\<close>

subsection \<open>Dialog results\<close>

text \<open>
  What \<open>SystemDialog\<close> does with the status that \<open>system\<close> returns for the line it
  built, while the helper program is available: for \<open>SDT_YES_NO\<close> the status 0 gives
  \<open>SDR_YES\<close> and every other status \<open>SDR_NO\<close>; for \<open>SDT_OK_CANCEL\<close> the status 0
  gives \<open>SDR_OK\<close> and every other status \<open>SDR_CANCEL\<close>; for \<open>SDT_INFO\<close>,
  \<open>SDT_WARNING\<close> and \<open>SDT_ERROR\<close> the result is \<open>SDR_OK\<close> whatever the status.
\<close>

lemma SystemDialog_result_of_status:
  assumes "zenityAvailable"
  shows "commands (SystemDialog sys console zenityAvailable type title message) =
      [zenity_command type title message] \<and>
    ret (SystemDialog sys console zenityAvailable SDT_YES_NO title message) =
      (if sys (zenity_command SDT_YES_NO title message) = 0 then SDR_YES else SDR_NO) \<and>
    ret (SystemDialog sys console zenityAvailable SDT_OK_CANCEL title message) =
      (if sys (zenity_command SDT_OK_CANCEL title message) = 0 then SDR_OK else SDR_CANCEL) \<and>
    ret (SystemDialog sys console zenityAvailable SDT_INFO title message) = SDR_OK \<and>
    ret (SystemDialog sys console zenityAvailable SDT_WARNING title message) = SDR_OK \<and>
    ret (SystemDialog sys console zenityAvailable SDT_ERROR title message) = SDR_OK"
  using assms by (simp add: SystemDialog_def Let_def)

text \<open>
  Claim C3: while the helper program is available, for \<open>SDT_YES_NO\<close> the helper's exit
  code 0 gives \<open>SDR_YES\<close> and every other exit code of the helper gives \<open>SDR_NO\<close>
  (likewise \<open>SDR_OK\<close> and \<open>SDR_CANCEL\<close> for \<open>SDT_OK_CANCEL\<close>). The status the code
  tests is that of the whole line it hands to the shell, and line 67 puts \<open>message\<close> and
  \<open>title\<close> between double quotes without escaping them. For the title \<open>Quit\<close> and the
  message \<open>"; exit 0; echo "\<close> the line below is three shell commands: the helper with
  an empty text, then \<open>exit 0\<close>, then an \<open>echo\<close> that is never reached. The shell ends
  with status 0 whatever the helper's exit code was, also when the user answered No and
  the helper exited with 1, and the dialog returns \<open>SDR_YES\<close>. \<open>stub_system 0\<close> is that
  shell.
\<close>

theorem SystemDialog_unescaped_message:
  "commands (SystemDialog (stub_system 0) stub_console True SDT_YES_NO ''Quit'' ''\"; exit 0; echo \"'') =
     [''zenity --question --ok-label=\"Yes\" --cancel-label=\"No\" --text=\"\"; exit 0; echo \"\" --title=\"Quit\"''] \<and>
   ret (SystemDialog (stub_system 0) stub_console True SDT_YES_NO ''Quit'' ''\"; exit 0; echo \"'') = SDR_YES"
  by (simp add: SystemDialog_def zenity_command_def stub_system_def Let_def)

subsection \<open>Environment variables\<close>

text \<open>
  Claim C6. For a name that is not set in the environment \<open>GetEnvVar\<close> returns the
  empty string, and for a name that is set it returns the value of the variable. The
  function is total: there is no error to raise.
\<close>

theorem GetEnvVar_result:
  "(env name = None \<longrightarrow> ret (GetEnvVar env name) = []) \<and>
   (\<forall>v. env name = Some v \<longrightarrow> ret (GetEnvVar env name) = v)"
  by (simp add: GetEnvVar_def)

theorem GetEnvVar_result_witness:
  "example_env ''DEFINITELY_UNSET_VAR_X'' = None \<and>
   ret (GetEnvVar example_env ''DEFINITELY_UNSET_VAR_X'') = [] \<and>
   example_env ''HOME'' = Some ''/home/player'' \<and>
   ret (GetEnvVar example_env ''HOME'') = ''/home/player''"
  using GetEnvVar_result [of example_env "''DEFINITELY_UNSET_VAR_X''"]
    GetEnvVar_result [of example_env "''HOME''"]
  by (simp add: example_env_def)

subsection \<open>Save directory\<close>

text \<open>
  Claim C4, as the specification states it, gives the precedence
  \<open>XDG_DATA_HOME\<close>, then \<open>HOME\<close>, then the built-in path, for every build. A build
  with \<open>PORTABLE_SAVES\<close> or \<open>DEV_BUILD\<close> does not read the environment: with
  \<open>XDG_DATA_HOME = /data\<close> it still answers the built-in path.
\<close>

theorem GetSaveDir_portable_counterexample:
  "example_env ''XDG_DATA_HOME'' = Some ''/data'' \<and>
   ret (GetSaveDir True ''saves'' example_env) = ''saves'' \<and>
   ret (GetSaveDir True ''saves'' example_env) \<noteq> ''/data'' @ ''/colobot''"
  by (simp add: GetSaveDir_def example_env_def)

text \<open>
  Claim C4, amended. In a build with neither \<open>PORTABLE_SAVES\<close> nor \<open>DEV_BUILD\<close>: if
  \<open>XDG_DATA_HOME\<close> is set and not empty the result is its value followed by
  \<open>/colobot\<close>; otherwise, if \<open>HOME\<close> is set and not empty, the result is its value
  followed by \<open>/.local/share/colobot\<close>; otherwise the result is the built-in path. In a
  build with one of the two flags the result is the built-in path.
\<close>

theorem GetSaveDir_precedence:
  "(portable \<longrightarrow> ret (GetSaveDir portable base_dir env) = base_dir) \<and>
   (\<not> portable \<longrightarrow>
     (\<forall>x. env ''XDG_DATA_HOME'' = Some x \<and> x \<noteq> [] \<longrightarrow>
        ret (GetSaveDir portable base_dir env) = x @ ''/colobot'') \<and>
     (env ''XDG_DATA_HOME'' = None \<or> env ''XDG_DATA_HOME'' = Some [] \<longrightarrow>
        (\<forall>h. env ''HOME'' = Some h \<and> h \<noteq> [] \<longrightarrow>
           ret (GetSaveDir portable base_dir env) = h @ ''/.local/share/colobot'') \<and>
        (env ''HOME'' = None \<or> env ''HOME'' = Some [] \<longrightarrow>
           ret (GetSaveDir portable base_dir env) = base_dir)))"
  by (auto simp: GetSaveDir_def GetEnvVar_def Let_def)

text \<open>
  The theorem in a portable build and, in an installed build, in three environments: both
  variables set, only \<open>HOME\<close> set, none set.
\<close>

theorem GetSaveDir_precedence_witness:
  "ret (GetSaveDir True ''saves'' example_env) = ''saves'' \<and>
   example_env ''XDG_DATA_HOME'' = Some ''/data'' \<and>
   ret (GetSaveDir False ''saves'' example_env) = ''/data/colobot'' \<and>
   home_env ''XDG_DATA_HOME'' = None \<and> home_env ''HOME'' = Some ''/home/player'' \<and>
   ret (GetSaveDir False ''saves'' home_env) = ''/home/player/.local/share/colobot'' \<and>
   empty_env ''XDG_DATA_HOME'' = None \<and> empty_env ''HOME'' = None \<and>
   ret (GetSaveDir False ''saves'' empty_env) = ''saves''"
  using GetSaveDir_precedence [of True "''saves''" example_env]
    GetSaveDir_precedence [of False "''saves''" example_env]
    GetSaveDir_precedence [of False "''saves''" home_env]
    GetSaveDir_precedence [of False "''saves''" empty_env]
  by (simp add: example_env_def home_env_def empty_env_def)

subsection \<open>Opening a path or a website\<close>

text \<open>
  What \<open>OpenPath\<close> and \<open>OpenWebsite\<close> do with the status that \<open>system\<close> returns
  for the line they built: false exactly when it is not 0, true when it is 0. Each calls
  \<open>system\<close> once, and each returns a value for every argument.
\<close>

lemma OpenPath_OpenWebsite_result_of_status:
  "(ret (OpenPath sys path) = False \<longleftrightarrow> sys (xdg_open_command path) \<noteq> 0) \<and>
   (ret (OpenPath sys path) = True \<longleftrightarrow> sys (xdg_open_command path) = 0) \<and>
   commands (OpenPath sys path) = [xdg_open_command path] \<and>
   (ret (OpenWebsite sys url) = False \<longleftrightarrow> sys (xdg_open_command url) \<noteq> 0) \<and>
   (ret (OpenWebsite sys url) = True \<longleftrightarrow> sys (xdg_open_command url) = 0) \<and>
   commands (OpenWebsite sys url) = [xdg_open_command url]"
  by (simp add: OpenPath_def OpenWebsite_def xdg_open_command_def Let_def)

text \<open>
  Claim C7: \<open>OpenPath\<close> and \<open>OpenWebsite\<close> return false exactly when the launcher
  exits with a code that is not 0, and true when it exits with 0. The status the code
  tests is that of the whole line it hands to the shell, and lines 155 and 166 put the
  argument between double quotes without escaping it. For the path
  \<open>"; exit 0; echo "\<close> the line is the launcher with an empty argument, then
  \<open>exit 0\<close>: the shell ends with status 0 also when the launcher failed, and
  \<open>OpenPath\<close> returns true (\<open>stub_system 0\<close> is that shell). For the address
  \<open>http://colobot.info"; false "\<close> the line is the launcher with the address, then
  \<open>false\<close>: the shell ends with exit code 1, which \<open>system\<close> returns as 256, also when
  the launcher exited with 0, and \<open>OpenWebsite\<close> returns false (\<open>stub_system 256\<close> is
  that shell).
\<close>

theorem OpenPath_OpenWebsite_unescaped_argument:
  "commands (OpenPath (stub_system 0) ''\"; exit 0; echo \"'') =
     [''xdg-open \"\"; exit 0; echo \"\"''] \<and>
   ret (OpenPath (stub_system 0) ''\"; exit 0; echo \"'') = True \<and>
   commands (OpenWebsite (stub_system 256) ''http://colobot.info\"; false \"'') =
     [''xdg-open \"http://colobot.info\"; false \"\"''] \<and>
   ret (OpenWebsite (stub_system 256) ''http://colobot.info\"; false \"'') = False"
  by (simp add: OpenPath_def OpenWebsite_def stub_system_def Let_def)

text \<open>
  Claim C10. For every string \<open>s\<close>, \<open>OpenPath\<close> and \<open>OpenWebsite\<close> run the same
  command, \<open>xdg-open\<close> with \<open>s\<close> between double quotes; when the shells they run it in
  answer that command with the same status, they return the same boolean; and in the
  same shell they log the same lines up to the format text.
\<close>

theorem OpenPath_OpenWebsite_equivalent:
  "commands (OpenPath sys s) = [xdg_open_command s] \<and>
   commands (OpenWebsite sys' s) = [xdg_open_command s] \<and>
   (sys (xdg_open_command s) = sys' (xdg_open_command s) \<longrightarrow>
      ret (OpenPath sys s) = ret (OpenWebsite sys' s)) \<and>
   map level_and_args (logged (OpenPath sys s)) = map level_and_args (logged (OpenWebsite sys s))"
  by (simp add: OpenPath_def OpenWebsite_def xdg_open_command_def Let_def)

theorem OpenPath_OpenWebsite_equivalent_witness:
  "stub_system 1 (xdg_open_command ''/tmp'') = stub_system 1 (xdg_open_command ''/tmp'') \<and>
   commands (OpenPath (stub_system 1) ''/tmp'') = commands (OpenWebsite (stub_system 1) ''/tmp'') \<and>
   ret (OpenPath (stub_system 1) ''/tmp'') = False \<and>
   ret (OpenWebsite (stub_system 1) ''/tmp'') = False"
  using OpenPath_OpenWebsite_equivalent [of "stub_system 1" "''/tmp''" "stub_system 1"]
  by (simp add: OpenPath_def stub_system_def)

section \<open>Time stamps: arithmetic of the model\<close>

subsection \<open>Rounding and conversion\<close>

lemma checked_Some: "in_llong x \<Longrightarrow> checked x = Some x"
  by (simp add: checked_def)

lemma rne_of_int: "rne (of_int m) = m"
  by (simp add: rne_def)

lemma rne_lower: "of_int N \<le> y \<Longrightarrow> N \<le> rne y"
  by (auto simp: rne_def Let_def le_floor_iff intro: add_increasing2)

lemma rne_upper:
  assumes "y \<le> of_int N"
  shows "rne y \<le> N"
proof (cases "y = of_int \<lfloor>y\<rfloor>")
  case True
  then have "rne y = \<lfloor>y\<rfloor>"
    by (metis rne_of_int)
  with assms show ?thesis
    by (simp add: floor_le_iff)
next
  case False
  have "of_int \<lfloor>y\<rfloor> \<le> y"
    by simp
  with False have "(of_int \<lfloor>y\<rfloor> :: rat) < of_int N"
    using assms by linarith
  then have "\<lfloor>y\<rfloor> + 1 \<le> N"
    by simp
  moreover have "rne y \<le> \<lfloor>y\<rfloor> + 1"
    by (simp add: rne_def Let_def)
  ultimately show ?thesis
    by linarith
qed

lemma rne_abs_le:
  assumes "\<bar>y\<bar> \<le> of_int N"
  shows "\<bar>rne y\<bar> \<le> N"
proof -
  have "y \<le> of_int N" and "of_int (- N) \<le> y"
    using assms by simp_all
  then have "rne y \<le> N" and "- N \<le> rne y"
    by (simp_all add: rne_upper rne_lower)
  then show ?thesis
    by linarith
qed

lemma ilog2_of_int: "1 \<le> n \<Longrightarrow> ilog2 (of_int n) = bitlen n - 1"
  by (simp add: ilog2_def)

text \<open>
  The rounding of the model is the rounding of the format: \<open>ilog2\<close> is the binary
  exponent, and a finite \<open>round32 x\<close> is a multiple of the last bit's weight with at
  most 24 bits, at most half that weight away from \<open>x\<close>.
\<close>

lemma ilog2_bounds_ge1:
  assumes "1 \<le> x"
  shows "2 powi ilog2 x \<le> x \<and> x < 2 powi (ilog2 x + 1)"
proof -
  define n where "n = \<lfloor>x\<rfloor>"
  define k where "k = nat (bitlen n - 1)"
  have n: "1 \<le> n"
    using assms by (simp add: n_def le_floor_iff)
  then have b: "1 \<le> bitlen n"
    by (simp add: bitlen_ge_iff_power)
  then have k: "bitlen n - 1 = int k" and k': "nat (bitlen n) = Suc k"
    by (simp_all add: k_def)
  have "2 ^ nat (bitlen n - 1) \<le> n \<and> n < 2 ^ nat (bitlen n)"
    using n by (intro bitlen_bounds) simp
  then have "2 ^ k \<le> n" and "n < 2 ^ Suc k"
    unfolding k' by (simp_all add: k_def)
  then have "(of_int (2 ^ k) :: rat) \<le> of_int n" and "(of_int (n + 1) :: rat) \<le> of_int (2 ^ Suc k)"
    unfolding of_int_le_iff by simp_all
  moreover have "of_int n \<le> x" and "x < of_int (n + 1)"
    unfolding n_def by linarith+
  ultimately have "(of_int (2 ^ k) :: rat) \<le> x" and "x < (of_int (2 ^ Suc k) :: rat)"
    by linarith+
  then have "(2 :: rat) ^ k \<le> x" and "x < 2 ^ Suc k"
    by simp_all
  moreover have "ilog2 x = int k"
    using assms by (simp add: ilog2_def k flip: n_def)
  ultimately show ?thesis
    by (simp add: power_int_def nat_add_distrib)
qed

lemma ilog2_bounds_less1:
  assumes "0 < x" "x < 1"
  shows "2 powi ilog2 x \<le> x \<and> x < 2 powi (ilog2 x + 1)"
proof -
  define c where "c = \<lceil>1 / x\<rceil>"
  define j where "j = nat (bitlen (c - 1) - 1)"
  have y: "1 < 1 / x"
    using assms by simp
  then have c: "1 \<le> c - 1"
    unfolding c_def by linarith
  then have "1 \<le> bitlen (c - 1)"
    by (simp add: bitlen_ge_iff_power)
  then have j: "nat (bitlen (c - 1) - 1) = j" and j': "nat (bitlen (c - 1)) = Suc j"
    and b: "bitlen (c - 1) = int (Suc j)"
    by (simp_all add: j_def)
  have "2 ^ nat (bitlen (c - 1) - 1) \<le> c - 1 \<and> c - 1 < 2 ^ nat (bitlen (c - 1))"
    using c by (intro bitlen_bounds) simp
  then have "2 ^ j \<le> c - 1" and "c \<le> 2 ^ Suc j"
    unfolding j j' by simp_all
  then have "(of_int (2 ^ j) :: rat) \<le> of_int (c - 1)" and "(of_int c :: rat) \<le> of_int (2 ^ Suc j)"
    unfolding of_int_le_iff by simp_all
  moreover have "of_int (c - 1) < 1 / x" and "1 / x \<le> of_int c"
    unfolding c_def by linarith+
  ultimately have "(of_int (2 ^ j) :: rat) < 1 / x" and "1 / x \<le> (of_int (2 ^ Suc j) :: rat)"
    by linarith+
  then have lo: "(2 :: rat) ^ j < 1 / x" and hi: "1 / x \<le> (2 :: rat) ^ Suc j"
    by simp_all
  have "x * 2 ^ j < 1"
    using lo assms(1) by (simp add: pos_less_divide_eq mult.commute)
  then have 1: "x < 1 / 2 ^ j"
    by (simp add: pos_less_divide_eq)
  have "1 \<le> x * 2 ^ Suc j"
    using hi assms(1) by (simp add: pos_divide_le_eq mult.commute)
  then have 2: "1 / 2 ^ Suc j \<le> x"
    by (simp add: pos_divide_le_eq)
  have i: "ilog2 x = - int (Suc j)"
    using assms by (simp add: ilog2_def b flip: c_def)
  have "- int (Suc j) + 1 = - int j"
    by simp
  then have p: "(2 :: rat) powi (- int (Suc j)) = 1 / 2 ^ Suc j"
    "(2 :: rat) powi (- int (Suc j) + 1) = 1 / 2 ^ j"
    by (simp_all only: power_int_minus_divide power_int_of_nat)
  show ?thesis
    unfolding i p using 1 2 by simp
qed

lemma ilog2_bounds:
  assumes "0 < x"
  shows "2 powi ilog2 x \<le> x \<and> x < 2 powi (ilog2 x + 1)"
  using assms ilog2_bounds_ge1 [of x] ilog2_bounds_less1 [of x] by (cases "1 \<le> x") simp_all

lemma rne_error: "\<bar>of_int (rne y) - y\<bar> \<le> 1 / 2"
proof -
  have "of_int \<lfloor>y\<rfloor> \<le> y" and "y < of_int \<lfloor>y\<rfloor> + 1"
    by linarith+
  then show ?thesis
    by (auto simp: rne_def Let_def abs_le_iff)
qed

lemma round32_nearest:
  assumes "x \<noteq> 0" "round32 x = Finite r"
  shows "\<exists>m. r = of_int m * 2 powi max (ilog2 \<bar>x\<bar> - 23) (- 149) \<and> \<bar>m\<bar> \<le> 2 ^ 24 \<and>
    \<bar>r - x\<bar> \<le> 2 powi max (ilog2 \<bar>x\<bar> - 23) (- 149) / 2"
proof -
  define e where "e = max (ilog2 \<bar>x\<bar> - 23) (- 149)"
  define u :: rat where "u = 2 powi e"
  define m where "m = rne (x / u)"
  have u: "0 < u"
    by (simp add: u_def)
  have r: "r = of_int m * u"
    using assms by (simp add: round32_def Let_def m_def u_def e_def split: if_splits)
  have "\<bar>x\<bar> < 2 powi (ilog2 \<bar>x\<bar> + 1)"
    using ilog2_bounds [of "\<bar>x\<bar>"] assms(1) by simp
  also have "(2 :: rat) powi (ilog2 \<bar>x\<bar> + 1) \<le> 2 powi (e + 24)"
    by (intro power_int_increasing) (simp_all add: e_def)
  also have "(2 :: rat) powi (e + 24) = u * 2 ^ 24"
    by (simp add: power_int_add u_def)
  finally have "\<bar>x / u\<bar> \<le> of_int (2 ^ 24)"
    using u by (simp add: pos_divide_le_eq mult.commute)
  then have m: "\<bar>m\<bar> \<le> 2 ^ 24"
    unfolding m_def by (rule rne_abs_le)
  have "r - x = (of_int m - x / u) * u"
    using u by (simp add: r field_simps)
  then have "\<bar>r - x\<bar> = \<bar>of_int m - x / u\<bar> * u"
    using u by (simp add: abs_mult)
  also have "\<dots> \<le> 1 / 2 * u"
    using u rne_error [of "x / u"] unfolding m_def by (intro mult_right_mono) simp_all
  finally have "\<bar>r - x\<bar> \<le> u / 2"
    by simp
  with r m show ?thesis
    unfolding u_def e_def by blast
qed

lemma ll_to_float_unfold:
  assumes "n \<noteq> 0"
  shows "ll_to_float n =
    (if 2 ^ 128 \<le> \<bar>of_int (rne (of_int n / 2 powi max (bitlen \<bar>n\<bar> - 24) (- 149))) *
          (2 :: rat) powi max (bitlen \<bar>n\<bar> - 24) (- 149)\<bar>
     then (if 0 < n then PInf else NInf)
     else Finite (of_int (rne (of_int n / 2 powi max (bitlen \<bar>n\<bar> - 24) (- 149))) *
          2 powi max (bitlen \<bar>n\<bar> - 24) (- 149)))"
proof -
  have "1 \<le> \<bar>n\<bar>"
    using assms by simp
  then have "ilog2 (of_int \<bar>n\<bar>) = bitlen \<bar>n\<bar> - 1"
    by (rule ilog2_of_int)
  then have e: "ilog2 \<bar>of_int n\<bar> - 23 = bitlen \<bar>n\<bar> - 24"
    by simp
  have z: "(of_int n :: rat) \<noteq> 0" "(0 < (of_int n :: rat)) = (0 < n)"
    using assms by simp_all
  show ?thesis
    unfolding ll_to_float_def round32_def Let_def e
    by (simp only: z if_False)
qed

text \<open>A \<open>long long\<close> always converts to a finite \<open>float\<close>.\<close>

lemma ll_to_float_finite:
  assumes "in_llong n"
  shows "\<exists>r. ll_to_float n = Finite r"
proof (cases "n = 0")
  case True
  then show ?thesis
    by (simp add: ll_to_float_def round32_def)
next
  case False
  define e where "e = max (bitlen \<bar>n\<bar> - 24) (- 149)"
  define y :: rat where "y = of_int n / 2 powi e"
  have m: "1 \<le> \<bar>n\<bar>" "\<bar>n\<bar> < 2 ^ 64"
    using False assms unfolding in_llong_def LLONG_MIN_def LLONG_MAX_def by simp_all linarith
  have "bitlen \<bar>n\<bar> \<le> 64"
    using m by (simp add: bitlen_le_iff_power)
  moreover have "1 \<le> bitlen \<bar>n\<bar>"
    using m by (simp add: bitlen_ge_iff_power)
  ultimately have e: "e = bitlen \<bar>n\<bar> - 24" "e \<le> 40"
    by (simp_all add: e_def)
  have "\<bar>n\<bar> < 2 ^ nat (bitlen \<bar>n\<bar>)"
    using bitlen_bounds [of "\<bar>n\<bar>"] m by simp
  then have "(of_int \<bar>n\<bar> :: rat) < 2 powi (bitlen \<bar>n\<bar>)"
    using bitlen_nonneg [of "\<bar>n\<bar>"] by (simp add: power_int_def del: of_int_abs)
  also have "(2 :: rat) powi (bitlen \<bar>n\<bar>) = 2 ^ 24 * 2 powi e"
    unfolding e by (simp add: power_int_diff)
  finally have "\<bar>y\<bar> \<le> of_int (2 ^ 24)"
    by (simp add: y_def pos_divide_le_eq)
  then have r: "\<bar>rne y\<bar> \<le> 2 ^ 24"
    by (rule rne_abs_le)
  have "(2 :: rat) powi e \<le> 2 powi 40"
    using e by (intro power_int_increasing) simp_all
  then have p: "(2 :: rat) powi e \<le> 2 ^ 40"
    by simp
  have "\<bar>of_int (rne y) * 2 powi e\<bar> = of_int \<bar>rne y\<bar> * (2 :: rat) powi e"
    by (simp add: abs_mult)
  also have "\<dots> \<le> of_int (2 ^ 24) * 2 ^ 40"
    using r p by (intro mult_mono) simp_all
  finally have "\<not> 2 ^ 128 \<le> \<bar>of_int (rne y) * (2 :: rat) powi e\<bar>"
    by simp
  then show ?thesis
    unfolding ll_to_float_unfold [OF False] y_def e_def by simp
qed

text \<open>Integers of magnitude up to \<open>2 ^ 24\<close> convert without rounding.\<close>

lemma ll_to_float_exact_below:
  assumes "\<bar>n\<bar> < 2 ^ 24"
  shows "ll_to_float n = Finite (of_int n)"
proof (cases "n = 0")
  case True
  then show ?thesis
    by (simp add: ll_to_float_def round32_def)
next
  case False
  define j where "j = nat (24 - bitlen \<bar>n\<bar>)"
  have m: "1 \<le> \<bar>n\<bar>"
    using False by simp
  have "bitlen \<bar>n\<bar> \<le> 24"
    using assms by (simp add: bitlen_le_iff_power)
  moreover have "1 \<le> bitlen \<bar>n\<bar>"
    using m by (simp add: bitlen_ge_iff_power)
  ultimately have e: "max (bitlen \<bar>n\<bar> - 24) (- 149) = - int j"
    by (simp add: j_def)
  have p: "(2 :: rat) powi (- int j) = 1 / 2 ^ j"
    by (simp add: power_int_minus_divide)
  have y: "of_int n / (1 / 2 ^ j) = (of_int (n * 2 ^ j) :: rat)"
    by simp
  have r: "of_int (n * 2 ^ j) * (1 / 2 ^ j) = (of_int n :: rat)"
    by simp
  have "\<bar>of_int n :: rat\<bar> < 2 ^ 24"
    using assms by (metis of_int_abs of_int_less_numeral_power_cancel_iff)
  then have "\<not> 2 ^ 128 \<le> \<bar>of_int n :: rat\<bar>"
    by simp
  then show ?thesis
    unfolding ll_to_float_unfold [OF False] e p y rne_of_int r by simp
qed

lemma ll_to_float_exact:
  assumes "\<bar>n\<bar> \<le> 2 ^ 24"
  shows "ll_to_float n = Finite (of_int n)"
proof -
  consider "\<bar>n\<bar> < 2 ^ 24" | "n = 16777216" | "n = - 16777216"
    using assms by fastforce
  then show ?thesis
  proof cases
    case 1
    then show ?thesis
      by (rule ll_to_float_exact_below)
  next
    case 2
    show ?thesis
      unfolding 2 by code_simp
  next
    case 3
    show ?thesis
      unfolding 3 by code_simp
  qed
qed

lemma truncate_of_int: "truncate (of_int n) = n"
  by (simp add: truncate_def)

lemma truncate_abs_le:
  assumes "\<bar>p\<bar> \<le> of_int N"
  shows "\<bar>truncate p\<bar> \<le> N"
proof (cases "0 \<le> p")
  case True
  then have "0 \<le> \<lfloor>p\<rfloor>" and "\<lfloor>p\<rfloor> \<le> N"
    using assms by (simp_all add: floor_le_iff) 
  with True show ?thesis
    by (simp add: truncate_def)
next
  case False
  then have "\<lceil>p\<rceil> \<le> 0" and "- N \<le> \<lceil>p\<rceil>"
    using assms by (simp_all add: ceiling_le_iff le_ceiling_iff)
  with False show ?thesis
    by (simp add: truncate_def)
qed

subsection \<open>Signed 64-bit range, division and remainder by \<open>10^9\<close>\<close>

lemma in_llong_iff: "in_llong x \<longleftrightarrow> - 9223372036854775808 \<le> x \<and> x \<le> 9223372036854775807"
  by (simp add: in_llong_def LLONG_MIN_def LLONG_MAX_def)

lemma smod_billion_bounds:
  "- 1000000000 < (d :: int) smod 1000000000" "(d :: int) smod 1000000000 < 1000000000"
proof -
  have "0 \<le> \<bar>d\<bar> mod 1000000000" "\<bar>d\<bar> mod 1000000000 < 1000000000"
    by simp_all
  then show "- 1000000000 < (d :: int) smod 1000000000" "(d :: int) smod 1000000000 < 1000000000"
    unfolding signed_modulo_int_def by (cases "0 \<le> d"; cases "d = 0"; simp add: sgn_if)+
qed

lemma sdiv_smod_nonneg:
  "0 \<le> d \<Longrightarrow> (d :: int) sdiv 1000000000 = d div 1000000000"
  "0 \<le> d \<Longrightarrow> (d :: int) smod 1000000000 = d mod 1000000000"
  by (simp_all add: signed_divide_int_def signed_modulo_int_def sgn_if)

lemma sdiv_billion_bound:
  assumes "\<bar>d\<bar> \<le> 4611686018427387904"
  shows "\<bar>(d :: int) sdiv 1000000000\<bar> \<le> 4611686019"
proof -
  have "\<bar>d\<bar> div 1000000000 \<le> (4611686018427387904 :: int) div 1000000000"
    using assms by (rule zdiv_mono1) simp
  then have "\<bar>d\<bar> div 1000000000 \<le> 4611686018"
    by simp
  moreover have "0 \<le> \<bar>d\<bar> div 1000000000"
    by simp
  moreover have "\<bar>d sdiv 1000000000\<bar> = \<bar>d\<bar> div 1000000000"
    by (cases "0 \<le> d") (simp_all add: signed_divide_int_def sgn_if)
  ultimately show ?thesis
    by simp
qed

lemma billion_div_mod:
  fixes s n :: int
  assumes "- 1000000000 < n" "n < 1000000000" "0 \<le> s * 1000000000 + n"
  shows "(s * 1000000000 + n) div 1000000000 = (if 0 \<le> n then s else s - 1)"
    and "(s * 1000000000 + n) mod 1000000000 = (if 0 \<le> n then n else n + 1000000000)"
proof -
  have "(s * 1000000000 + n) div 1000000000 = s + n div 1000000000"
    by simp
  moreover have "n div 1000000000 = (if 0 \<le> n then 0 else - 1)"
    using assms(1,2) by (simp add: div_eq_minus1 zdiv_eq_0_iff) linarith
  ultimately show "(s * 1000000000 + n) div 1000000000 = (if 0 \<le> n then s else s - 1)"
    by simp
  have "(s * 1000000000 + n) mod 1000000000 = n mod 1000000000"
    by simp
  moreover have "n mod 1000000000 = (if 0 \<le> n then n else n + 1000000000)"
  proof (cases "0 \<le> n")
    case True
    then show ?thesis
      using assms(2) by simp
  next
    case False
    then have "(n + 1000000000) mod 1000000000 = n + 1000000000"
      using assms(1) by (intro mod_pos_pos_trivial) simp_all
    then show ?thesis
      using False by simp
  qed
  ultimately show "(s * 1000000000 + n) mod 1000000000 = (if 0 \<le> n then n else n + 1000000000)"
    by simp
qed

subsection \<open>The two operations, when nothing overflows\<close>

lemma exact_difference_nanoseconds: "exact_difference a b = nanoseconds b - nanoseconds a"
  by (simp add: exact_difference_def nanoseconds_def algebra_simps)

lemma TimeStampExactDiff_Some:
  assumes "normalized a" "normalized b"
    and "\<bar>tv_sec (clockTime b) - tv_sec (clockTime a)\<bar> \<le> 9223372035"
  shows "TimeStampExactDiff a b = Some (exact_difference a b)"
    and "in_llong (exact_difference a b)"
proof -
  define s where "s = tv_sec (clockTime b) - tv_sec (clockTime a)"
  define n where "n = tv_nsec (clockTime b) - tv_nsec (clockTime a)"
  have s: "- 9223372035 \<le> s" "s \<le> 9223372035"
    using assms(3) by (simp_all add: s_def)
  have n: "- 1000000000 < n" "n < 1000000000"
    using assms(1,2) by (simp_all add: n_def normalized_def)
  have 1: "in_llong n"
    using n by (simp add: in_llong_iff)
  have 2: "in_llong s"
    using s by (simp add: in_llong_iff)
  have 3: "in_llong (s * 1000000000)"
    using s by (simp add: in_llong_iff)
  have 4: "in_llong (n + s * 1000000000)"
    using s n by (simp add: in_llong_iff)
  have 5: "exact_difference a b = n + s * 1000000000"
    by (simp add: exact_difference_def s_def n_def)
  show "TimeStampExactDiff a b = Some (exact_difference a b)"
    unfolding TimeStampExactDiff_def 5
    by (simp add: checked_Some 1 2 3 4 flip: s_def n_def)
  show "in_llong (exact_difference a b)"
    unfolding 5 by (rule 4)
qed

lemma InterpolateTimeStamp_steps:
  assumes "TimeStampExactDiff a b = Some D"
    and "float_to_ll (fmul (ll_to_float D) i) = Some d"
    and "in_llong (tv_sec (clockTime a) + d sdiv 1000000000)"
    and "1000000000 \<le> tv_nsec (clockTime a) + d smod 1000000000 \<Longrightarrow>
         in_llong (tv_sec (clockTime a) + d sdiv 1000000000 + 1)"
    and "in_llong (tv_nsec (clockTime a) + d smod 1000000000)"
  shows "InterpolateTimeStamp a b i =
    Some (if 1000000000 \<le> tv_nsec (clockTime a) + d smod 1000000000
          then \<lparr>clockTime = \<lparr>tv_sec = tv_sec (clockTime a) + d sdiv 1000000000 + 1,
                 tv_nsec = tv_nsec (clockTime a) + d smod 1000000000 - 1000000000\<rparr>\<rparr>
          else \<lparr>clockTime = \<lparr>tv_sec = tv_sec (clockTime a) + d sdiv 1000000000,
                 tv_nsec = tv_nsec (clockTime a) + d smod 1000000000\<rparr>\<rparr>)"
proof -
  have "1000000000 \<le> tv_nsec (clockTime a) + d smod 1000000000 \<Longrightarrow>
      in_llong (tv_nsec (clockTime a) + d smod 1000000000 - 1000000000)"
    using assms(5) by (simp add: in_llong_iff)
  then show ?thesis
    using assms by (simp add: InterpolateTimeStamp_def checked_def)
qed

text \<open>
  The time stamp \<open>InterpolateTimeStamp\<close> writes represents the time of \<open>a\<close> plus the
  truncated single-precision product; it is normalized when that product is not
  negative.
\<close>

lemma InterpolateTimeStamp_nanoseconds:
  assumes "normalized a" "normalized b"
    and "\<bar>tv_sec (clockTime a)\<bar> \<le> 4611686018427387904"
    and "\<bar>tv_sec (clockTime b) - tv_sec (clockTime a)\<bar> \<le> 9223372035"
    and "fmul (ll_to_float (exact_difference a b)) i = Finite p"
    and "\<bar>p\<bar> \<le> 4611686018427387904"
  shows "\<exists>r. InterpolateTimeStamp a b i = Some r \<and>
    nanoseconds r = nanoseconds a + truncate p \<and>
    (0 \<le> truncate p \<longrightarrow> normalized r)"
proof -
  define D where "D = exact_difference a b"
  define d where "d = truncate p"
  define q where "q = d sdiv 1000000000"
  define m where "m = d smod 1000000000"
  have diff: "TimeStampExactDiff a b = Some D"
    unfolding D_def using assms(1,2,4) by (rule TimeStampExactDiff_Some)
  have d: "\<bar>d\<bar> \<le> 4611686018427387904"
    unfolding d_def using assms(6) by (intro truncate_abs_le) simp
  then have "in_llong d"
    unfolding in_llong_iff by linarith
  then have scaled: "float_to_ll (fmul (ll_to_float D) i) = Some d"
    using assms(5) by (simp add: D_def d_def checked_Some)
  have q: "\<bar>q\<bar> \<le> 4611686019"
    unfolding q_def using d by (rule sdiv_billion_bound)
  have m: "- 1000000000 < m" "m < 1000000000"
    unfolding m_def by (rule smod_billion_bounds)+
  have qm: "q * 1000000000 + m = d"
    unfolding q_def m_def by (rule sdiv_mult_smod_eq)
  have m_pos: "0 \<le> m" if "0 \<le> d"
    using that by (simp add: m_def sdiv_smod_nonneg)
  have nsec_a: "0 \<le> tv_nsec (clockTime a)" "tv_nsec (clockTime a) < 1000000000"
    using assms(1) by (simp_all add: normalized_def)
  have 1: "in_llong (tv_sec (clockTime a) + q)"
    using assms(3) q unfolding in_llong_iff by linarith
  have 2: "in_llong (tv_sec (clockTime a) + q + 1)"
    using assms(3) q unfolding in_llong_iff by linarith
  have 3: "in_llong (tv_nsec (clockTime a) + m)"
    using nsec_a m unfolding in_llong_iff by linarith
  have "InterpolateTimeStamp a b i =
    Some (if 1000000000 \<le> tv_nsec (clockTime a) + m
          then \<lparr>clockTime = \<lparr>tv_sec = tv_sec (clockTime a) + q + 1,
                 tv_nsec = tv_nsec (clockTime a) + m - 1000000000\<rparr>\<rparr>
          else \<lparr>clockTime = \<lparr>tv_sec = tv_sec (clockTime a) + q,
                 tv_nsec = tv_nsec (clockTime a) + m\<rparr>\<rparr>)"
    unfolding q_def m_def
    by (rule InterpolateTimeStamp_steps [OF diff scaled]) (use 1 2 3 in \<open>simp_all add: q_def m_def\<close>)
  moreover have "nanoseconds a + d = (tv_sec (clockTime a) + q) * 1000000000 + (tv_nsec (clockTime a) + m)"
    unfolding qm [symmetric] by (simp add: nanoseconds_def algebra_simps)
  ultimately show ?thesis
    using m nsec_a m_pos by (auto simp: nanoseconds_def normalized_def d_def [symmetric])
qed

section \<open>Time stamps: the claims\<close>

subsection \<open>The difference\<close>

text \<open>
  Claim C2, as the specification states it, is about every pair of time stamps. The
  result is a \<open>long long\<close>: between \<open>0 s\<close> and \<open>9223372037 s\<close> the difference in
  nanoseconds is above \<open>2 ^ 63 - 1\<close>, the product with \<open>1000000000ll\<close> overflows, and
  the code has no defined result there.
\<close>

theorem TimeStampExactDiff_overflow_counterexample:
  "normalized (stamp 0 0) \<and> normalized (stamp 9223372037 0) \<and>
   TimeStampExactDiff (stamp 0 0) (stamp 9223372037 0) = None \<and>
   TimeStampExactDiff (stamp 0 0) (stamp 9223372037 0) \<noteq>
     Some ((tv_sec (clockTime (stamp 9223372037 0)) - tv_sec (clockTime (stamp 0 0))) * 1000000000 +
           (tv_nsec (clockTime (stamp 9223372037 0)) - tv_nsec (clockTime (stamp 0 0))))"
  by code_simp

text \<open>
  Claim C2, amended. For normalized time stamps \<open>a\<close> and \<open>b\<close> whose seconds differ by
  at most \<open>9223372035\<close>, \<open>TimeStampExactDiff a b\<close> is
  \<open>(b.seconds - a.seconds) * 10^9 + (b.nanoseconds - a.nanoseconds)\<close>, the time \<open>b\<close>
  represents minus the time \<open>a\<close> represents; it is positive exactly when \<open>b\<close> is later
  than \<open>a\<close>.
\<close>

theorem TimeStampExactDiff_value:
  assumes "normalized a" "normalized b"
    and "\<bar>tv_sec (clockTime b) - tv_sec (clockTime a)\<bar> \<le> 9223372035"
  shows "TimeStampExactDiff a b = Some (exact_difference a b) \<and>
    exact_difference a b = nanoseconds b - nanoseconds a \<and>
    (0 < exact_difference a b \<longleftrightarrow> nanoseconds a < nanoseconds b)"
  using TimeStampExactDiff_Some(1) [OF assms]
  by (simp add: exact_difference_nanoseconds)

text \<open>From 5.9 s to 7.1 s the difference is 1200000000 ns, and the reverse is its negation.\<close>

theorem TimeStampExactDiff_value_witness:
  "normalized (stamp 5 900000000) \<and> normalized (stamp 7 100000000) \<and>
   TimeStampExactDiff (stamp 5 900000000) (stamp 7 100000000) = Some 1200000000 \<and>
   nanoseconds (stamp 5 900000000) < nanoseconds (stamp 7 100000000) \<and>
   TimeStampExactDiff (stamp 7 100000000) (stamp 5 900000000) = Some (- 1200000000)"
proof -
  have a: "normalized (stamp 5 900000000)" and b: "normalized (stamp 7 100000000)"
    by code_simp+
  have ab: "\<bar>tv_sec (clockTime (stamp 7 100000000)) - tv_sec (clockTime (stamp 5 900000000))\<bar> \<le> 9223372035"
    and ba: "\<bar>tv_sec (clockTime (stamp 5 900000000)) - tv_sec (clockTime (stamp 7 100000000))\<bar> \<le> 9223372035"
    by (simp_all add: stamp_def)
  have v: "exact_difference (stamp 5 900000000) (stamp 7 100000000) = 1200000000"
    "exact_difference (stamp 7 100000000) (stamp 5 900000000) = - 1200000000"
    "nanoseconds (stamp 5 900000000) < nanoseconds (stamp 7 100000000)"
    by code_simp+
  have 1: "TimeStampExactDiff (stamp 5 900000000) (stamp 7 100000000) = Some 1200000000"
    using TimeStampExactDiff_value [OF a b ab] unfolding v by blast
  have 2: "TimeStampExactDiff (stamp 7 100000000) (stamp 5 900000000) = Some (- 1200000000)"
    using TimeStampExactDiff_value [OF b a ba] unfolding v by blast
  show ?thesis
    using a b 1 2 v(3) by blast
qed

subsection \<open>Interpolation at the two ends\<close>

text \<open>
  Claim C1, as the specification states it, says that the fraction 1 gives back exactly
  \<open>b\<close>. The difference is first rounded to a \<open>float\<close>: from \<open>0 s\<close> to
  \<open>1 s + 1 ns\<close> the difference \<open>1000000001\<close> rounds to \<open>1000000000\<close>, and the result
  is \<open>1 s + 0 ns\<close>.
\<close>

theorem InterpolateTimeStamp_endpoint_counterexample:
  "normalized (stamp 0 0) \<and> normalized (stamp 1 1) \<and>
   InterpolateTimeStamp (stamp 0 0) (stamp 1 1) (Finite 1) = Some (stamp 1 0) \<and>
   InterpolateTimeStamp (stamp 0 0) (stamp 1 1) (Finite 1) \<noteq> Some (stamp 1 1)"
  by code_simp

text \<open>
  Claim C1, amended. For normalized time stamps \<open>a\<close> and \<open>b\<close> whose seconds differ by
  at most \<open>9223372035\<close>: the fraction 0 gives exactly \<open>a\<close>; and when \<open>b\<close> is not
  earlier than \<open>a\<close> and the difference in nanoseconds is a number that \<open>float\<close>
  represents exactly (every difference up to \<open>2 ^ 24\<close> ns is one, by
  \<open>ll_to_float_exact\<close>), the fraction 1 gives exactly \<open>b\<close>.
\<close>

theorem InterpolateTimeStamp_endpoints:
  assumes "normalized a" "normalized b"
    and "in_llong (tv_sec (clockTime a))" "in_llong (tv_sec (clockTime b))"
    and "\<bar>tv_sec (clockTime b) - tv_sec (clockTime a)\<bar> \<le> 9223372035"
  shows "InterpolateTimeStamp a b (Finite 0) = Some a \<and>
    (0 \<le> exact_difference a b \<and>
     ll_to_float (exact_difference a b) = Finite (of_int (exact_difference a b)) \<longrightarrow>
     InterpolateTimeStamp a b (Finite 1) = Some b)"
proof (intro conjI impI)
  define D where "D = exact_difference a b"
  have diff: "TimeStampExactDiff a b = Some D" and D: "in_llong D"
    unfolding D_def using assms(1,2,5) by (rule TimeStampExactDiff_Some)+
  have nsec_a: "0 \<le> tv_nsec (clockTime a)" "tv_nsec (clockTime a) < 1000000000"
    using assms(1) by (simp_all add: normalized_def)
  have nsec_b: "0 \<le> tv_nsec (clockTime b)" "tv_nsec (clockTime b) < 1000000000"
    using assms(2) by (simp_all add: normalized_def)
  show "InterpolateTimeStamp a b (Finite 0) = Some a"
  proof -
    obtain r where "ll_to_float D = Finite r"
      using ll_to_float_finite [OF D] by blast
    then have "float_to_ll (fmul (ll_to_float D) (Finite 0)) = Some 0"
      by (simp add: round32_def truncate_def checked_def in_llong_iff)
    from InterpolateTimeStamp_steps [OF diff this] show ?thesis
      using assms(3) nsec_a by (simp add: in_llong_iff)
  qed
  assume "0 \<le> exact_difference a b \<and>
     ll_to_float (exact_difference a b) = Finite (of_int (exact_difference a b))"
  then have pos: "0 \<le> D" and exact: "ll_to_float D = Finite (of_int D)"
    by (simp_all add: D_def)
  define s where "s = tv_sec (clockTime b) - tv_sec (clockTime a)"
  define n where "n = tv_nsec (clockTime b) - tv_nsec (clockTime a)"
  have Dsn: "D = s * 1000000000 + n"
    by (simp add: D_def exact_difference_def s_def n_def)
  have n: "- 1000000000 < n" "n < 1000000000"
    using nsec_a nsec_b by (simp_all add: n_def)
  have "round32 (of_int D) = Finite (of_int D)"
    using exact by (simp add: ll_to_float_def)
  then have scaled: "float_to_ll (fmul (ll_to_float D) (Finite 1)) = Some D"
    using D by (simp add: exact truncate_def checked_Some)
  have q: "D sdiv 1000000000 = (if 0 \<le> n then s else s - 1)"
    and r: "D smod 1000000000 = (if 0 \<le> n then n else n + 1000000000)"
    using pos billion_div_mod [OF n] by (simp_all add: sdiv_smod_nonneg Dsn)
  have sec: "tv_sec (clockTime a) + s = tv_sec (clockTime b)"
    and nsec: "tv_nsec (clockTime a) + n = tv_nsec (clockTime b)"
    by (simp_all add: s_def n_def)
  show "InterpolateTimeStamp a b (Finite 1) = Some b"
  proof (cases "0 \<le> n")
    case True
    with InterpolateTimeStamp_steps [OF diff scaled] show ?thesis
      using assms(4) nsec_b by (simp add: q r sec nsec in_llong_iff)
  next
    case False
    have "tv_sec (clockTime a) + (s - 1) + 1 = tv_sec (clockTime b)"
      "tv_nsec (clockTime a) + (n + 1000000000) - 1000000000 = tv_nsec (clockTime b)"
      "tv_nsec (clockTime a) + (n + 1000000000) = tv_nsec (clockTime b) + 1000000000"
      "tv_sec (clockTime a) + (s - 1) = tv_sec (clockTime b) - 1"
      by (simp_all add: s_def n_def)
    moreover have "1 \<le> s"
      using pos n False unfolding Dsn by linarith
    then have "in_llong (tv_sec (clockTime b) - 1)"
      using assms(3,4) by (simp add: in_llong_iff s_def)
    ultimately show ?thesis
      using InterpolateTimeStamp_steps [OF diff scaled] False assms(4) nsec_b
      by (simp add: q r in_llong_iff)
  qed
qed

text \<open>From 5.9 s to 7.1 s: 1200000000 is \<open>1171875 * 2 ^ 10\<close>, exact in a \<open>float\<close>.\<close>

theorem InterpolateTimeStamp_endpoints_witness:
  "normalized (stamp 5 900000000) \<and> normalized (stamp 7 100000000) \<and>
   0 \<le> exact_difference (stamp 5 900000000) (stamp 7 100000000) \<and>
   ll_to_float (exact_difference (stamp 5 900000000) (stamp 7 100000000)) =
     Finite (of_int (exact_difference (stamp 5 900000000) (stamp 7 100000000))) \<and>
   InterpolateTimeStamp (stamp 5 900000000) (stamp 7 100000000) (Finite 0) = Some (stamp 5 900000000) \<and>
   InterpolateTimeStamp (stamp 5 900000000) (stamp 7 100000000) (Finite 1) = Some (stamp 7 100000000)"
proof -
  have a: "normalized (stamp 5 900000000)" and b: "normalized (stamp 7 100000000)"
    by code_simp+
  have sa: "in_llong (tv_sec (clockTime (stamp 5 900000000)))"
    and sb: "in_llong (tv_sec (clockTime (stamp 7 100000000)))"
    by code_simp+
  have ab: "\<bar>tv_sec (clockTime (stamp 7 100000000)) - tv_sec (clockTime (stamp 5 900000000))\<bar> \<le> 9223372035"
    by (simp add: stamp_def)
  have e: "0 \<le> exact_difference (stamp 5 900000000) (stamp 7 100000000) \<and>
    ll_to_float (exact_difference (stamp 5 900000000) (stamp 7 100000000)) =
      Finite (of_int (exact_difference (stamp 5 900000000) (stamp 7 100000000)))"
    by code_simp
  show ?thesis
    using InterpolateTimeStamp_endpoints [OF a b sa sb ab] a b e by simp
qed

subsection \<open>Interpolation at any fraction\<close>

text \<open>
  Claim C5, as the specification states it, takes \<open>d\<close> to be the exact product of the
  fraction and the difference, truncated. The code rounds the difference to a \<open>float\<close>
  and multiplies in \<open>float\<close>: half way from \<open>0 s\<close> to \<open>1 s + 100 ns\<close> the exact
  product truncates to \<open>500000050\<close>, and the code gives \<open>500000064\<close> ns.
\<close>

theorem InterpolateTimeStamp_product_counterexample:
  "normalized (stamp 0 0) \<and> normalized (stamp 1 100) \<and>
   TimeStampExactDiff (stamp 0 0) (stamp 1 100) = Some 1000000100 \<and>
   truncate (1 / 2 * of_int 1000000100) = 500000050 \<and>
   InterpolateTimeStamp (stamp 0 0) (stamp 1 100) (Finite (1 / 2)) = Some (stamp 0 500000064) \<and>
   nanoseconds (stamp 0 500000064) \<noteq> nanoseconds (stamp 0 0) + 500000050"
  by code_simp

text \<open>
  Claim C5, amended. For normalized time stamps \<open>a\<close> and \<open>b\<close> whose seconds differ by
  at most \<open>9223372035\<close>, with the seconds of \<open>a\<close> at most \<open>2 ^ 62\<close> in magnitude, and
  every fraction \<open>i\<close> (inside or outside \<open>[0, 1]\<close>) for which the single-precision
  product \<open>p\<close> of the difference, rounded to \<open>float\<close>, and \<open>i\<close> is finite and at
  most \<open>2 ^ 62\<close> in magnitude: the result represents the time of \<open>a\<close> plus \<open>p\<close>
  truncated toward zero. When neither the conversion of the difference nor the product
  rounds, this is the exact product of the fraction and the difference, truncated.
\<close>

theorem InterpolateTimeStamp_represents:
  assumes "normalized a" "normalized b"
    and "\<bar>tv_sec (clockTime a)\<bar> \<le> 4611686018427387904"
    and "\<bar>tv_sec (clockTime b) - tv_sec (clockTime a)\<bar> \<le> 9223372035"
    and "fmul (ll_to_float (exact_difference a b)) i = Finite p"
    and "\<bar>p\<bar> \<le> 4611686018427387904"
  shows "(\<exists>r. InterpolateTimeStamp a b i = Some r \<and> nanoseconds r = nanoseconds a + truncate p) \<and>
    (\<forall>f. i = Finite f \<and>
       ll_to_float (exact_difference a b) = Finite (of_int (exact_difference a b)) \<and>
       round32 (of_int (exact_difference a b) * f) = Finite (of_int (exact_difference a b) * f) \<longrightarrow>
       truncate p = truncate (f * of_int (exact_difference a b)))"
proof
  show "\<exists>r. InterpolateTimeStamp a b i = Some r \<and> nanoseconds r = nanoseconds a + truncate p"
    using InterpolateTimeStamp_nanoseconds [OF assms] by blast
  show "\<forall>f. i = Finite f \<and>
       ll_to_float (exact_difference a b) = Finite (of_int (exact_difference a b)) \<and>
       round32 (of_int (exact_difference a b) * f) = Finite (of_int (exact_difference a b) * f) \<longrightarrow>
       truncate p = truncate (f * of_int (exact_difference a b))"
    using assms(5) by (auto simp: mult.commute)
qed

text \<open>Half of 3 ns is 1.5 ns, exact in a \<open>float\<close>, truncated to 1 ns.\<close>

theorem InterpolateTimeStamp_represents_witness:
  "normalized (stamp 5 900000000) \<and> normalized (stamp 5 900000003) \<and>
   fmul (ll_to_float (exact_difference (stamp 5 900000000) (stamp 5 900000003))) (Finite (1 / 2)) =
     Finite (3 / 2) \<and>
   truncate (3 / 2) = 1 \<and>
   InterpolateTimeStamp (stamp 5 900000000) (stamp 5 900000003) (Finite (1 / 2)) =
     Some (stamp 5 900000001) \<and>
   truncate (1 / 2 * of_int (exact_difference (stamp 5 900000000) (stamp 5 900000003))) = 1"
proof -
  have a: "normalized (stamp 5 900000000)" and b: "normalized (stamp 5 900000003)"
    by code_simp+
  have sa: "\<bar>tv_sec (clockTime (stamp 5 900000000))\<bar> \<le> 4611686018427387904"
    and ab: "\<bar>tv_sec (clockTime (stamp 5 900000003)) - tv_sec (clockTime (stamp 5 900000000))\<bar> \<le> 9223372035"
    by (simp_all add: stamp_def)
  have p: "fmul (ll_to_float (exact_difference (stamp 5 900000000) (stamp 5 900000003))) (Finite (1 / 2)) =
     Finite (3 / 2)"
    by code_simp
  have bound: "\<bar>3 / 2 :: rat\<bar> \<le> 4611686018427387904"
    by simp
  have t: "truncate (3 / 2) = 1"
    by code_simp
  have e: "ll_to_float (exact_difference (stamp 5 900000000) (stamp 5 900000003)) =
      Finite (of_int (exact_difference (stamp 5 900000000) (stamp 5 900000003))) \<and>
    round32 (of_int (exact_difference (stamp 5 900000000) (stamp 5 900000003)) * (1 / 2)) =
      Finite (of_int (exact_difference (stamp 5 900000000) (stamp 5 900000003)) * (1 / 2))"
    by code_simp
  have v: "InterpolateTimeStamp (stamp 5 900000000) (stamp 5 900000003) (Finite (1 / 2)) =
     Some (stamp 5 900000001)"
    by code_simp
  have d: "truncate (1 / 2 * of_int (exact_difference (stamp 5 900000000) (stamp 5 900000003))) = 1"
    by code_simp
  show ?thesis
    using InterpolateTimeStamp_represents [OF a b sa ab p bound] a b p t e v
    unfolding d by blast
qed

subsection \<open>Normalization of the result\<close>

text \<open>
  Claim C9: for normalized \<open>a\<close> and \<open>b\<close> and every fraction the result is normalized,
  also when the truncated product is negative. The code carries into the seconds when
  the nanoseconds reach \<open>10^9\<close> (lines 92 to 96) and has no branch that borrows when they
  are negative: extrapolating from \<open>0 s\<close> and \<open>1 s\<close> at the fraction \<open>-0.5\<close> writes
  \<open>0 s\<close> and \<open>-500000000 ns\<close>. (For a product that is not negative the result is
  normalized: \<open>InterpolateTimeStamp_nanoseconds\<close>.)
\<close>

theorem InterpolateTimeStamp_negative_nanoseconds:
  "normalized (stamp 0 0) \<and> normalized (stamp 1 0) \<and>
   InterpolateTimeStamp (stamp 0 0) (stamp 1 0) (Finite (- 1 / 2)) = Some (stamp 0 (- 500000000)) \<and>
   \<not> normalized (stamp 0 (- 500000000))"
  by code_simp

end
